theory Spec2Isabelle
  imports Main "HOL-Library.Char_ord" "HOL-Library.List_Lexorder" "HOL-Library.Sublist"
begin

section \<open>Data model\<close>

text \<open>
  The tables of the clinic backend, as the migrations declare them. A \<open>uuid\<close> primary key is
  an opaque identifier; a \<open>datetime\<close> is an instant in milliseconds (what a JavaScript
  \<open>Date\<close> holds). Only the columns that the appointment controller and the appointment model
  read or write are kept; the free-text and billing columns are passed through unchanged by
  the code and play no part below.
\<close>

type_synonym uuid = nat
type_synonym datetime = int

datatype appointment_type = consultation | follow_up | emergency | procedure | checkup

datatype appointment_status =
  scheduled | confirmed | in_progress | completed | cancelled | no_show

datatype user_role = admin | doctor | nurse | receptionist

datatype user_status = active | inactive | suspended

record patient =
  patient_key :: uuid

record user =
  user_key :: uuid
  role :: user_role
  account_status :: user_status

record appointment =
  appointment_key :: uuid
  appointment_number :: string
  patient_id :: uuid
  doctor_id :: uuid
  created_by :: uuid
  appointment_date :: datetime
  duration_minutes :: int
  appointment_kind :: appointment_type
  status :: appointment_status
  confirmed_at :: "datetime option"
  started_at :: "datetime option"
  completed_at :: "datetime option"
  cancelled_at :: "datetime option"
  cancellation_reason :: "string option"
  cancelled_by :: "uuid option"
  updated_at :: datetime

record database =
  patients :: "patient list"
  users :: "user list"
  appointments :: "appointment list"

section \<open>Availability check\<close>

text \<open>\<open>moment(t).add(d, 'minutes')\<close>, and SQL's \<open>t + INTERVAL d MINUTE\<close>.\<close>

definition add_minutes :: "datetime \<Rightarrow> int \<Rightarrow> datetime" where
  "add_minutes t d = t + d * 60000"

text \<open>
  The \<open>where\<close> clause of \<open>Appointment.checkAvailability\<close> that selects the overlapping
  rows: three sub-conditions joined by \<open>orWhere\<close>, in the order of the source.
\<close>

definition overlap_clause :: "appointment \<Rightarrow> datetime \<Rightarrow> datetime \<Rightarrow> bool" where
  "overlap_clause a startTime endTime =
     ((appointment_date a \<le> startTime
         \<and> add_minutes (appointment_date a) (duration_minutes a) > startTime)
      \<or> (appointment_date a < endTime
         \<and> add_minutes (appointment_date a) (duration_minutes a) \<ge> endTime)
      \<or> (appointment_date a \<ge> startTime
         \<and> add_minutes (appointment_date a) (duration_minutes a) \<le> endTime))"

text \<open>
  The store. \<open>config/database\<close>, which names the client the queries run on, is not among
  the sources; it is PostgreSQL: the migrations draw keys with \<open>gen_random_uuid()\<close>, the
  models read the rows of \<open>returning('*')\<close> and filter with \<open>ilike\<close>, and the README
  names it. A query the store rejects throws, as an insert does that breaks a unique
  constraint.
\<close>

datatype sql_dialect = PostgreSQL | MySQL

definition store_dialect :: sql_dialect where
  "store_dialect = PostgreSQL"

datatype db_error = UniqueViolation | SqlSyntaxError

text \<open>
  The raw fragment \<open>appointment_date + INTERVAL duration_minutes MINUTE\<close> of the query:
  an interval of a column's value with a bare unit is MySQL's syntax, which PostgreSQL does
  not parse.
\<close>

definition parses_interval_fragment :: "sql_dialect \<Rightarrow> bool" where
  "parses_interval_fragment dialect = (dialect = MySQL)"

text \<open>
  The query of \<open>Appointment.checkAvailability\<close>: the rows of the doctor in one of the three
  statuses that satisfy the clause, without the row of the excluded key when one is given.
  The last argument is \<open>null\<close> or a key, and a key (a non-empty string) is truthy. The
  query holds the raw fragment three times, so the store runs it only if it parses the
  fragment.
\<close>

definition active_statuses :: "appointment_status list" where
  "active_statuses = [scheduled, confirmed, in_progress]"

definition conflict_query ::
  "appointment list \<Rightarrow> uuid \<Rightarrow> datetime \<Rightarrow> int \<Rightarrow> uuid option
     \<Rightarrow> db_error + appointment list" where
  "conflict_query tbl doctorId appointmentDate durationMinutes excludeAppointmentId =
     (let startTime = appointmentDate;
          endTime = add_minutes appointmentDate durationMinutes;
          query = filter (\<lambda>a. doctor_id a = doctorId
                              \<and> status a \<in> set active_statuses
                              \<and> overlap_clause a startTime endTime) tbl
      in if parses_interval_fragment store_dialect
         then Inr (case excludeAppointmentId of
                     None \<Rightarrow> query
                   | Some x \<Rightarrow> filter (\<lambda>a. appointment_key a \<noteq> x) query)
         else Inl SqlSyntaxError)"

text \<open>
  \<open>Appointment.checkAvailability\<close>: await the query; the window is available when it
  returns no row. When the query throws, so does the function.
\<close>

definition checkAvailability ::
  "appointment list \<Rightarrow> uuid \<Rightarrow> datetime \<Rightarrow> int \<Rightarrow> uuid option \<Rightarrow> db_error + bool" where
  "checkAvailability tbl doctorId appointmentDate durationMinutes excludeAppointmentId =
     (case conflict_query tbl doctorId appointmentDate durationMinutes excludeAppointmentId of
        Inl e \<Rightarrow> Inl e
      | Inr conflicts \<Rightarrow> Inr (length conflicts = 0))"

subsection \<open>The half-open interval test of the specification\<close>

text \<open>
  A window is the half-open interval from the start to the start plus the duration; two
  windows \<open>[s1, e1)\<close> and \<open>[s2, e2)\<close> overlap iff \<open>s1 < e2\<close> and \<open>s2 < e1\<close>.
\<close>

definition window :: "datetime \<Rightarrow> int \<Rightarrow> datetime \<times> datetime" where
  "window t d = (t, add_minutes t d)"

definition window_of :: "appointment \<Rightarrow> datetime \<times> datetime" where
  "window_of a = window (appointment_date a) (duration_minutes a)"

fun overlaps :: "datetime \<times> datetime \<Rightarrow> datetime \<times> datetime \<Rightarrow> bool" where
  "overlaps (s1, e1) (s2, e2) = (s1 < e2 \<and> s2 < e1)"

definition non_terminal :: "appointment_status \<Rightarrow> bool" where
  "non_terminal s = (s = scheduled \<or> s = confirmed \<or> s = in_progress)"

section \<open>Appointment numbers\<close>

text \<open>
  The JavaScript values and string operations that \<open>Appointment.generateAppointmentNumber\<close>
  uses. A JavaScript number is an integer or \<open>NaN\<close> here (the generator only adds one to
  the result of \<open>parseInt\<close>); \<open>decimal\<close> is \<open>Number.prototype.toString\<close> on a
  non-negative integer. \<open>parseInt\<close> skips leading white space, reads an optional sign and
  the longest run of decimal digits, and is \<open>NaN\<close> when there is no digit. Two things
  are left out, neither of which a number written by the generator meets: the hexadecimal
  prefix \<open>0x\<close>, and the rounding of integers beyond 2^53 (the code's numbers are doubles,
  the model's integers are exact).
\<close>

datatype js_number = NaN | Number int

definition is_digit :: "char \<Rightarrow> bool" where
  "is_digit c = (CHR ''0'' \<le> c \<and> c \<le> CHR ''9'')"

definition digit_value :: "char \<Rightarrow> nat" where
  "digit_value c = of_char c - of_char CHR ''0''"

definition digit_char :: "nat \<Rightarrow> char" where
  "digit_char n = char_of (of_char CHR ''0'' + n)"

fun decimal :: "nat \<Rightarrow> string" where
  "decimal n = (if n < 10 then [digit_char n] else decimal (n div 10) @ [digit_char (n mod 10)])"

declare decimal.simps [simp del]

fun toString :: "js_number \<Rightarrow> string" where
  "toString NaN = ''NaN''"
| "toString (Number i) = (if i < 0 then CHR ''-'' # decimal (nat (- i)) else decimal (nat i))"

definition padStart :: "nat \<Rightarrow> char \<Rightarrow> string \<Rightarrow> string" where
  "padStart targetLength c s = replicate (targetLength - length s) c @ s"

definition digits_value :: "string \<Rightarrow> nat" where
  "digits_value ds = foldl (\<lambda>acc c. 10 * acc + digit_value c) 0 ds"

definition is_space :: "char \<Rightarrow> bool" where
  "is_space c = (c \<in> set [CHR '' '', CHR 0x09, CHR 0x0A, CHR 0x0B, CHR 0x0C, CHR 0x0D])"

definition parseInt :: "string \<Rightarrow> js_number" where
  "parseInt s =
     (let t = dropWhile is_space s;
          negative = (case t of [] \<Rightarrow> False | c # _ \<Rightarrow> c = CHR ''-'');
          u = (case t of [] \<Rightarrow> [] | c # r \<Rightarrow> if c = CHR ''-'' \<or> c = CHR ''+'' then r else t);
          ds = takeWhile is_digit u
      in if ds = [] then NaN
         else Number (if negative then - int (digits_value ds) else int (digits_value ds)))"

text \<open>\<open>x + k\<close> on numbers.\<close>

fun js_plus :: "js_number \<Rightarrow> int \<Rightarrow> js_number" where
  "js_plus NaN k = NaN"
| "js_plus (Number i) k = Number (i + k)"

text \<open>\<open>s.replace(pat, rep)\<close> with a string pattern: the first occurrence is replaced.\<close>

fun replace_first :: "string \<Rightarrow> string \<Rightarrow> string \<Rightarrow> string" where
  "replace_first pat rep [] = (if pat = [] then rep else [])"
| "replace_first pat rep (c # cs) =
     (if prefix pat (c # cs) then rep @ drop (length pat) (c # cs)
      else c # replace_first pat rep cs)"

text \<open>\<open>.orderBy(column, 'desc').first()\<close>: the greatest value, if there is a row.\<close>

definition first_desc :: "string list \<Rightarrow> string option" where
  "first_desc xs = (case xs of [] \<Rightarrow> None | y # ys \<Rightarrow> Some (fold max ys y))"

text \<open>
  The prefix \<open>`A${year}${month}`\<close>, from \<open>getFullYear()\<close> and \<open>getMonth()\<close> (which counts
  from zero) of the current date.
\<close>

definition scope_prefix :: "nat \<Rightarrow> nat \<Rightarrow> string" where
  "scope_prefix year monthIndex =
     (let month = padStart 2 CHR ''0'' (decimal (monthIndex + 1))
      in ''A'' @ decimal year @ month)"

text \<open>
  \<open>Appointment.generateAppointmentNumber\<close>. The query reads only the column
  \<open>appointment_number\<close> of the table, so the function takes that column;
  \<open>where(column, 'like', `${prefix}%`)\<close> keeps the values that start with the prefix.
\<close>

definition generateAppointmentNumber :: "nat \<Rightarrow> nat \<Rightarrow> string list \<Rightarrow> string" where
  "generateAppointmentNumber year monthIndex numbers =
     (let pre = scope_prefix year monthIndex;
          lastAppointment = first_desc (filter (prefix pre) numbers);
          nextNumber = (case lastAppointment of
                          None \<Rightarrow> Number 1
                        | Some n \<Rightarrow> js_plus (parseInt (replace_first pre '''' n)) 1)
      in pre @ padStart 4 CHR ''0'' (toString nextNumber))"

subsection \<open>Sequences within a scope\<close>

text \<open>
  \<open>generate_sequence n\<close> runs the generator \<open>n\<close> times, each number inserted before the
  next is generated. A scope is in order when every stored number with the prefix is the
  prefix followed by four decimal digits; the sequence of such a number is the value of
  those digits.
\<close>

fun generate_sequence :: "nat \<Rightarrow> nat \<Rightarrow> nat \<Rightarrow> string list \<Rightarrow> string list" where
  "generate_sequence 0 year monthIndex numbers = []"
| "generate_sequence (Suc n) year monthIndex numbers =
     (let s = generateAppointmentNumber year monthIndex numbers
      in s # generate_sequence n year monthIndex (numbers @ [s]))"

definition four_digits :: "string \<Rightarrow> bool" where
  "four_digits s = (length s = 4 \<and> list_all is_digit s)"

definition scope_ok :: "string \<Rightarrow> string list \<Rightarrow> bool" where
  "scope_ok p numbers = list_all (\<lambda>s. prefix p s \<longrightarrow> four_digits (drop (length p) s)) numbers"

definition sequence_of :: "string \<Rightarrow> string \<Rightarrow> nat" where
  "sequence_of p s = digits_value (drop (length p) s)"

definition existing_sequences :: "string \<Rightarrow> string list \<Rightarrow> nat list" where
  "existing_sequences p numbers = map (sequence_of p) (filter (prefix p) numbers)"

definition next_sequence :: "string \<Rightarrow> string list \<Rightarrow> nat" where
  "next_sequence p numbers =
     (if existing_sequences p numbers = [] then 1
      else Max (set (existing_sequences p numbers)) + 1)"

definition numbered :: "string \<Rightarrow> nat \<Rightarrow> string" where
  "numbered p k = p @ padStart 4 CHR ''0'' (decimal k)"

section \<open>The appointment model and controller\<close>

text \<open>
  \<open>new Date()\<close>: the instant, and the calendar year and month (counted from zero) that
  \<open>getFullYear()\<close> and \<open>getMonth()\<close> read from it.
\<close>

record js_date =
  getTime :: datetime
  getFullYear :: nat
  getMonth :: nat

text \<open>A failed request: the HTTP status and the \<open>error\<close> field of the JSON response.\<close>

type_synonym failure = "nat \<times> string"

text \<open>\<open>a || b\<close> on an optional number: absent and \<open>0\<close> are falsy.\<close>

definition truthy :: "int option \<Rightarrow> bool" where
  "truthy v = (case v of None \<Rightarrow> False | Some n \<Rightarrow> n \<noteq> 0)"

definition js_or :: "int option \<Rightarrow> int \<Rightarrow> int" where
  "js_or v d = (case v of None \<Rightarrow> d | Some n \<Rightarrow> if n = 0 then d else n)"

subsection \<open>Lookups\<close>

definition Patient_findById :: "database \<Rightarrow> uuid \<Rightarrow> patient option" where
  "Patient_findById db i = find (\<lambda>p. patient_key p = i) (patients db)"

definition User_findById :: "database \<Rightarrow> uuid \<Rightarrow> user option" where
  "User_findById db i = find (\<lambda>u. user_key u = i) (users db)"

definition Appointment_findById :: "database \<Rightarrow> uuid \<Rightarrow> appointment option" where
  "Appointment_findById db i = find (\<lambda>a. appointment_key a = i) (appointments db)"

subsection \<open>Create\<close>

text \<open>
  The body of a create request, as \<open>appointmentSchema\<close> admits it: the duration is
  optional, and a body with a key the schema does not list (a status, say) is rejected
  before the controller runs.
\<close>

record appointment_body =
  body_patient_id :: uuid
  body_doctor_id :: uuid
  body_appointment_date :: datetime
  body_duration_minutes :: "int option"
  body_type :: appointment_type

definition appointmentSchema :: "js_date \<Rightarrow> appointment_body \<Rightarrow> bool" where
  "appointmentSchema today body =
     (getTime today \<le> body_appointment_date body
      \<and> (case body_duration_minutes body of None \<Rightarrow> True | Some d \<Rightarrow> 15 \<le> d \<and> d \<le> 240))"

text \<open>
  \<open>Appointment.create\<close>: generate the number, insert the row. The columns the request
  does not give take the defaults of the migration (duration 30, status scheduled); the
  key is the one the store draws (\<open>gen_random_uuid()\<close>). The table rejects a row whose
  key or whose appointment number is already stored (primary key, \<open>unique()\<close>), and the
  insert then throws.
\<close>

definition Appointment_create ::
  "database \<Rightarrow> js_date \<Rightarrow> uuid \<Rightarrow> uuid \<Rightarrow> appointment_body
     \<Rightarrow> db_error + database \<times> appointment" where
  "Appointment_create db today new_key creator appointmentData =
     (let appointmentNumber =
            generateAppointmentNumber (getFullYear today) (getMonth today)
              (map appointment_number (appointments db));
          row = \<lparr> appointment_key = new_key,
                  appointment_number = appointmentNumber,
                  patient_id = body_patient_id appointmentData,
                  doctor_id = body_doctor_id appointmentData,
                  created_by = creator,
                  appointment_date = body_appointment_date appointmentData,
                  duration_minutes =
                    (case body_duration_minutes appointmentData of None \<Rightarrow> 30 | Some d \<Rightarrow> d),
                  appointment_kind = body_type appointmentData,
                  status = scheduled,
                  confirmed_at = None, started_at = None, completed_at = None,
                  cancelled_at = None, cancellation_reason = None, cancelled_by = None,
                  updated_at = getTime today \<rparr>
      in if new_key \<in> set (map appointment_key (appointments db))
            \<or> appointmentNumber \<in> set (map appointment_number (appointments db))
         then Inl UniqueViolation
         else Inr (db \<lparr> appointments := appointments db @ [row] \<rparr>, row))"

text \<open>
  \<open>AppointmentController.createAppointment\<close>; \<open>requester\<close> is \<open>req.user.id\<close>. Whatever
  throws inside the \<open>try\<close> block, the availability check or the insert, is caught and
  answered with 500.
\<close>

definition createAppointment ::
  "database \<Rightarrow> js_date \<Rightarrow> uuid \<Rightarrow> uuid \<Rightarrow> appointment_body
     \<Rightarrow> database \<times> (failure + appointment)" where
  "createAppointment db today new_key requester body =
     (case Patient_findById db (body_patient_id body) of
        None \<Rightarrow> (db, Inl (404, ''Patient not found''))
      | Some patient \<Rightarrow>
          (case User_findById db (body_doctor_id body) of
             None \<Rightarrow> (db, Inl (404, ''Doctor not found''))
           | Some d \<Rightarrow>
               if role d \<noteq> doctor \<or> account_status d \<noteq> active
               then (db, Inl (404, ''Doctor not found''))
               else (case checkAvailability (appointments db) (body_doctor_id body)
                            (body_appointment_date body)
                            (js_or (body_duration_minutes body) 30) None of
                       Inl e \<Rightarrow> (db, Inl (500, ''Internal server error''))
                     | Inr isAvailable \<Rightarrow>
                         if \<not> isAvailable
                         then (db, Inl (409, ''Time slot not available''))
                         else (case Appointment_create db today new_key requester body of
                                 Inl e \<Rightarrow> (db, Inl (500, ''Internal server error''))
                               | Inr (db', appointment) \<Rightarrow> (db', Inr appointment)))))"

text \<open>
  The controller awaits its queries one after the other, with no transaction around them:
  first the reads (patient, doctor, availability), which end the request with a response
  or let it go on, then the insert. \<open>concurrent_create\<close> is the run of two requests in
  which both do their reads before either inserts.
\<close>

definition create_reads :: "database \<Rightarrow> appointment_body \<Rightarrow> failure option" where
  "create_reads db body =
     (case Patient_findById db (body_patient_id body) of
        None \<Rightarrow> Some (404, ''Patient not found'')
      | Some patient \<Rightarrow>
          (case User_findById db (body_doctor_id body) of
             None \<Rightarrow> Some (404, ''Doctor not found'')
           | Some d \<Rightarrow>
               if role d \<noteq> doctor \<or> account_status d \<noteq> active
               then Some (404, ''Doctor not found'')
               else (case checkAvailability (appointments db) (body_doctor_id body)
                            (body_appointment_date body)
                            (js_or (body_duration_minutes body) 30) None of
                       Inl e \<Rightarrow> Some (500, ''Internal server error'')
                     | Inr isAvailable \<Rightarrow>
                         if \<not> isAvailable then Some (409, ''Time slot not available'')
                         else None)))"

definition create_write ::
  "database \<Rightarrow> js_date \<Rightarrow> uuid \<Rightarrow> uuid \<Rightarrow> appointment_body
     \<Rightarrow> database \<times> (failure + appointment)" where
  "create_write db today new_key requester body =
     (case Appointment_create db today new_key requester body of
        Inl e \<Rightarrow> (db, Inl (500, ''Internal server error''))
      | Inr (db', appointment) \<Rightarrow> (db', Inr appointment))"

definition concurrent_create ::
  "database \<Rightarrow> js_date \<Rightarrow> uuid \<Rightarrow> uuid \<Rightarrow> uuid \<Rightarrow> appointment_body \<Rightarrow> appointment_body
     \<Rightarrow> database \<times> (failure + appointment) \<times> (failure + appointment)" where
  "concurrent_create db today key1 key2 requester body1 body2 =
     (let reads1 = create_reads db body1;
          reads2 = create_reads db body2;
          (db1, response1) = (case reads1 of
                                Some failure \<Rightarrow> (db, Inl failure)
                              | None \<Rightarrow> create_write db today key1 requester body1);
          (db2, response2) = (case reads2 of
                                Some failure \<Rightarrow> (db1, Inl failure)
                              | None \<Rightarrow> create_write db1 today key2 requester body2)
      in (db2, response1, response2))"

subsection \<open>Update\<close>

text \<open>
  \<open>updateData\<close>: the columns an update writes, each optional. A request body that
  \<open>appointmentUpdateSchema\<close> admits holds only the first five; the controller adds the
  time stamps and the canceller.
\<close>

record update_data =
  set_appointment_date :: "datetime option"
  set_duration_minutes :: "int option"
  set_type :: "appointment_type option"
  set_status :: "appointment_status option"
  set_cancellation_reason :: "string option"
  set_confirmed_at :: "datetime option"
  set_started_at :: "datetime option"
  set_completed_at :: "datetime option"
  set_cancelled_at :: "datetime option"
  set_cancelled_by :: "uuid option"

definition appointmentUpdateSchema :: "js_date \<Rightarrow> update_data \<Rightarrow> bool" where
  "appointmentUpdateSchema today u =
     ((case set_appointment_date u of None \<Rightarrow> True | Some t \<Rightarrow> getTime today \<le> t)
      \<and> (case set_duration_minutes u of None \<Rightarrow> True | Some d \<Rightarrow> 15 \<le> d \<and> d \<le> 240)
      \<and> set_confirmed_at u = None \<and> set_started_at u = None \<and> set_completed_at u = None
      \<and> set_cancelled_at u = None \<and> set_cancelled_by u = None)"

definition or_else :: "'a option \<Rightarrow> 'a \<Rightarrow> 'a" where
  "or_else v old = (case v of None \<Rightarrow> old | Some x \<Rightarrow> x)"

definition or_keep :: "'a option \<Rightarrow> 'a option \<Rightarrow> 'a option" where
  "or_keep v old = (case v of None \<Rightarrow> old | Some x \<Rightarrow> Some x)"

text \<open>The row after \<open>.update({...appointmentData, updated_at: new Date()})\<close>.\<close>

definition write_columns :: "update_data \<Rightarrow> datetime \<Rightarrow> appointment \<Rightarrow> appointment" where
  "write_columns u now a =
     a \<lparr> appointment_date := or_else (set_appointment_date u) (appointment_date a),
         duration_minutes := or_else (set_duration_minutes u) (duration_minutes a),
         appointment_kind := or_else (set_type u) (appointment_kind a),
         status := or_else (set_status u) (status a),
         cancellation_reason := or_keep (set_cancellation_reason u) (cancellation_reason a),
         confirmed_at := or_keep (set_confirmed_at u) (confirmed_at a),
         started_at := or_keep (set_started_at u) (started_at a),
         completed_at := or_keep (set_completed_at u) (completed_at a),
         cancelled_at := or_keep (set_cancelled_at u) (cancelled_at a),
         cancelled_by := or_keep (set_cancelled_by u) (cancelled_by a),
         updated_at := now \<rparr>"

text \<open>\<open>Appointment.update\<close>: write the rows with the key, return the first of them.\<close>

definition Appointment_update ::
  "database \<Rightarrow> js_date \<Rightarrow> uuid \<Rightarrow> update_data \<Rightarrow> database \<times> appointment option" where
  "Appointment_update db today i appointmentData =
     (let tbl = map (\<lambda>a. if appointment_key a = i
                          then write_columns appointmentData (getTime today) a else a)
                    (appointments db)
      in (db \<lparr> appointments := tbl \<rparr>, find (\<lambda>a. appointment_key a = i) tbl))"

text \<open>The \<open>switch\<close> on the new status, which stamps the update.\<close>

definition handle_status :: "js_date \<Rightarrow> uuid \<Rightarrow> update_data \<Rightarrow> update_data" where
  "handle_status today requester updateData =
     (case set_status updateData of
        None \<Rightarrow> updateData
      | Some confirmed \<Rightarrow> updateData \<lparr> set_confirmed_at := Some (getTime today) \<rparr>
      | Some in_progress \<Rightarrow> updateData \<lparr> set_started_at := Some (getTime today) \<rparr>
      | Some completed \<Rightarrow> updateData \<lparr> set_completed_at := Some (getTime today) \<rparr>
      | Some cancelled \<Rightarrow> updateData \<lparr> set_cancelled_at := Some (getTime today),
                                         set_cancelled_by := Some requester \<rparr>
      | Some _ \<Rightarrow> updateData)"

text \<open>
  \<open>AppointmentController.updateAppointment\<close>: the availability check runs only when the
  request holds a date or a duration; when it throws, the request is answered with 500.
\<close>

definition changes_time :: "update_data \<Rightarrow> bool" where
  "changes_time updateData =
     (set_appointment_date updateData \<noteq> None \<or> truthy (set_duration_minutes updateData))"

definition updateAppointment ::
  "database \<Rightarrow> js_date \<Rightarrow> uuid \<Rightarrow> uuid \<Rightarrow> update_data
     \<Rightarrow> database \<times> (failure + appointment option)" where
  "updateAppointment db today requester i updateData =
     (case Appointment_findById db i of
        None \<Rightarrow> (db, Inl (404, ''Appointment not found''))
      | Some existingAppointment \<Rightarrow>
          (let written =
                 (case Appointment_update db today i
                         (handle_status today requester updateData) of
                    (db', appointment) \<Rightarrow> (db', Inr appointment))
           in if changes_time updateData
              then (case checkAvailability (appointments db) (doctor_id existingAppointment)
                           (or_else (set_appointment_date updateData)
                              (appointment_date existingAppointment))
                           (js_or (set_duration_minutes updateData)
                              (duration_minutes existingAppointment))
                           (Some i) of
                      Inl e \<Rightarrow> (db, Inl (500, ''Internal server error''))
                    | Inr isAvailable \<Rightarrow>
                        if \<not> isAvailable
                        then (db, Inl (409, ''Time slot not available''))
                        else written)
              else written))"

subsection \<open>Cancel\<close>

text \<open>\<open>cancellation_reason || 'No reason provided'\<close>: absent and the empty string are falsy.\<close>

definition reason_or_default :: "string option \<Rightarrow> string" where
  "reason_or_default r =
     (case r of None \<Rightarrow> ''No reason provided''
      | Some s \<Rightarrow> if s = [] then ''No reason provided'' else s)"

definition cancel_data :: "js_date \<Rightarrow> uuid \<Rightarrow> string option \<Rightarrow> update_data" where
  "cancel_data today requester r =
     \<lparr> set_appointment_date = None, set_duration_minutes = None, set_type = None,
       set_status = Some cancelled,
       set_cancellation_reason = Some (reason_or_default r),
       set_confirmed_at = None, set_started_at = None, set_completed_at = None,
       set_cancelled_at = Some (getTime today),
       set_cancelled_by = Some requester \<rparr>"

text \<open>\<open>AppointmentController.cancelAppointment\<close>.\<close>

definition cancelAppointment ::
  "database \<Rightarrow> js_date \<Rightarrow> uuid \<Rightarrow> uuid \<Rightarrow> string option \<Rightarrow> database \<times> (failure + unit)" where
  "cancelAppointment db today requester i r =
     (case Appointment_findById db i of
        None \<Rightarrow> (db, Inl (404, ''Appointment not found''))
      | Some existingAppointment \<Rightarrow>
          if status existingAppointment = cancelled
          then (db, Inl (400, ''Appointment already cancelled''))
          else (fst (Appointment_update db today i (cancel_data today requester r)), Inr ()))"

subsection \<open>The no-overlap invariant\<close>

text \<open>
  Two appointments clash when they are of one doctor, both in a non-terminal status, and
  their windows overlap. The invariant: no two rows of the table clash.
\<close>

definition clash :: "appointment \<Rightarrow> appointment \<Rightarrow> bool" where
  "clash a b =
     (doctor_id a = doctor_id b \<and> non_terminal (status a) \<and> non_terminal (status b)
      \<and> overlaps (window_of a) (window_of b))"

fun no_double_booking :: "appointment list \<Rightarrow> bool" where
  "no_double_booking [] = True"
| "no_double_booking (a # rest) = (list_all (\<lambda>b. \<not> clash a b) rest \<and> no_double_booking rest)"

subsection \<open>Sample data\<close>

text \<open>
  A row with the given key, doctor, start, duration and status; the number is the key's in
  March 2024. The instant \<open>nine\<close> is 2024-03-01T09:00:00Z.
\<close>

definition nine :: datetime where
  "nine = 1709283600000"

definition march :: js_date where
  "march = \<lparr> getTime = 1709251200000, getFullYear = 2024, getMonth = 2 \<rparr>"

definition sample_row ::
  "uuid \<Rightarrow> uuid \<Rightarrow> datetime \<Rightarrow> int \<Rightarrow> appointment_status \<Rightarrow> appointment" where
  "sample_row k d t m s =
     \<lparr> appointment_key = k, appointment_number = numbered ''A202403'' k,
       patient_id = 100, doctor_id = d, created_by = 200,
       appointment_date = t, duration_minutes = m,
       appointment_kind = consultation, status = s,
       confirmed_at = None, started_at = None, completed_at = None,
       cancelled_at = None, cancellation_reason = None, cancelled_by = None,
       updated_at = 0 \<rparr>"

definition sample_db :: "appointment list \<Rightarrow> database" where
  "sample_db tbl =
     \<lparr> patients = [\<lparr> patient_key = 100 \<rparr>],
       users = [\<lparr> user_key = 1, role = doctor, account_status = active \<rparr>,
                \<lparr> user_key = 2, role = nurse, account_status = active \<rparr>,
                \<lparr> user_key = 3, role = doctor, account_status = suspended \<rparr>,
                \<lparr> user_key = 200, role = receptionist, account_status = active \<rparr>],
       appointments = tbl \<rparr>"

definition status_only :: "appointment_status \<Rightarrow> update_data" where
  "status_only s =
     \<lparr> set_appointment_date = None, set_duration_minutes = None, set_type = None,
       set_status = Some s, set_cancellation_reason = None,
       set_confirmed_at = None, set_started_at = None, set_completed_at = None,
       set_cancelled_at = None, set_cancelled_by = None \<rparr>"

definition move_to :: "datetime \<Rightarrow> update_data" where
  "move_to t =
     \<lparr> set_appointment_date = Some t, set_duration_minutes = None, set_type = None,
       set_status = None, set_cancellation_reason = None,
       set_confirmed_at = None, set_started_at = None, set_completed_at = None,
       set_cancelled_at = None, set_cancelled_by = None \<rparr>"

definition resize :: "int \<Rightarrow> update_data" where
  "resize m =
     \<lparr> set_appointment_date = None, set_duration_minutes = Some m, set_type = None,
       set_status = None, set_cancellation_reason = None,
       set_confirmed_at = None, set_started_at = None, set_completed_at = None,
       set_cancelled_at = None, set_cancelled_by = None \<rparr>"

definition request :: "uuid \<Rightarrow> datetime \<Rightarrow> int option \<Rightarrow> appointment_body" where
  "request d t m =
     \<lparr> body_patient_id = 100, body_doctor_id = d, body_appointment_date = t,
       body_duration_minutes = m, body_type = consultation \<rparr>"

section \<open>Properties of the availability check\<close>

lemma overlap_clause_imp_overlaps:
  assumes "0 < duration_minutes a" and "0 < d"
    and "overlap_clause a t (add_minutes t d)"
  shows "overlaps (window_of a) (window t d)"
  using assms by (auto simp: overlap_clause_def window_of_def window_def add_minutes_def)

lemma overlaps_imp_overlap_clause:
  assumes "overlaps (window_of a) (window t d)"
  shows "overlap_clause a t (add_minutes t d)"
  using assms by (auto simp: overlap_clause_def window_of_def window_def add_minutes_def)

lemma conflict_query_rejected:
  "conflict_query tbl doctorId t d x = Inl SqlSyntaxError"
  by (simp add: conflict_query_def parses_interval_fragment_def store_dialect_def)

lemma checkAvailability_rejected:
  "checkAvailability tbl doctorId t d x = Inl SqlSyntaxError"
  by (simp add: checkAvailability_def conflict_query_rejected)

section \<open>Properties of the number generator\<close>

lemma of_char_zero: "of_char CHR ''0'' = (48::nat)" by simp
lemma of_char_nine: "of_char CHR ''9'' = (57::nat)" by simp

lemma is_digit_iff: "is_digit c \<longleftrightarrow> 48 \<le> (of_char c :: nat) \<and> (of_char c :: nat) \<le> 57"
  unfolding is_digit_def less_eq_char_def of_char_zero of_char_nine ..

lemma digit_char_props:
  assumes "n < 10"
  shows "is_digit (digit_char n)" and "digit_value (digit_char n) = n"
  using assms by (simp_all add: is_digit_iff digit_char_def digit_value_def)

lemma digit_value_less: "is_digit c \<Longrightarrow> digit_value c < 10"
  by (auto simp: is_digit_iff digit_value_def)

lemma digit_less_iff:
  assumes "is_digit a" and "is_digit b"
  shows "a < b \<longleftrightarrow> digit_value a < digit_value b"
  using assms by (auto simp: is_digit_iff digit_value_def less_char_def)

lemma digit_eq_iff:
  assumes "is_digit a" and "is_digit b"
  shows "a = b \<longleftrightarrow> digit_value a = digit_value b"
proof
  assume "digit_value a = digit_value b"
  with assms have "(of_char a :: nat) = of_char b"
    unfolding is_digit_iff digit_value_def of_char_zero by arith
  then show "a = b" by simp
qed simp

lemma digits_value_snoc: "digits_value (ds @ [c]) = 10 * digits_value ds + digit_value c"
  by (simp add: digits_value_def)

lemma decimal_digits: "list_all is_digit (decimal n)"
  by (induction n rule: decimal.induct) (subst decimal.simps, simp add: digit_char_props)

lemma digits_value_decimal: "digits_value (decimal n) = n"
proof (induction n rule: decimal.induct)
  case (1 n)
  show ?case
  proof (cases "n < 10")
    case True
    then show ?thesis
      by (subst decimal.simps) (simp add: digits_value_def digit_char_props)
  next
    case False
    with 1 have "digits_value (decimal (n div 10)) = n div 10" by simp
    with False show ?thesis
      by (subst decimal.simps) (simp add: digits_value_snoc digit_char_props)
  qed
qed

lemma decimal_not_Nil: "decimal n \<noteq> []"
  by (subst decimal.simps) simp

lemma length_decimal_le: "n < 10 ^ k \<Longrightarrow> 0 < k \<Longrightarrow> length (decimal n) \<le> k"
proof (induction n arbitrary: k rule: decimal.induct)
  case (1 n)
  show ?case
  proof (cases "n < 10")
    case True
    with 1(3) show ?thesis by (subst decimal.simps) simp
  next
    case False
    with 1(2) have k2: "1 < k" by (cases "k = 1") (use 1(3) in auto)
    then obtain j where j: "k = Suc j" "0 < j" by (cases k) auto
    with 1(2) have "n div 10 < 10 ^ j" by (simp add: less_mult_imp_div_less mult.commute)
    with 1(1) False j have "length (decimal (n div 10)) \<le> j" by simp
    with False j show ?thesis by (subst decimal.simps) simp
  qed
qed

lemma foldl_digits_acc:
  "foldl (\<lambda>acc c. 10 * acc + digit_value c) a ds
     = a * 10 ^ length ds + foldl (\<lambda>acc c. 10 * acc + digit_value c) 0 ds"
proof (induction ds arbitrary: a)
  case Nil
  show ?case by simp
next
  case (Cons d ds)
  show ?case
    by (simp, subst Cons.IH, subst (2) Cons.IH, simp add: algebra_simps)
qed

lemma digits_value_Cons:
  "digits_value (c # ds) = digit_value c * 10 ^ length ds + digits_value ds"
  unfolding digits_value_def by (simp, subst foldl_digits_acc, simp)

lemma digits_value_zeros: "digits_value (replicate k CHR ''0'' @ ds) = digits_value ds"
  by (induction k) (simp_all add: digits_value_Cons digit_value_def)

lemma digits_value_bound: "list_all is_digit ds \<Longrightarrow> digits_value ds < 10 ^ length ds"
proof (induction ds)
  case Nil
  show ?case by (simp add: digits_value_def)
next
  case (Cons d ds)
  then have d: "digit_value d < 10" and b: "digits_value ds < 10 ^ length ds"
    by (simp_all add: digit_value_less)
  from d have "Suc (digit_value d) * 10 ^ length ds \<le> 10 * 10 ^ length ds"
    by (intro mult_le_mono1) simp
  then have "digit_value d * 10 ^ length ds + 10 ^ length ds \<le> 10 * 10 ^ length ds"
    by simp
  with b have "digit_value d * 10 ^ length ds + digits_value ds < 10 * 10 ^ length ds"
    by linarith
  then show ?case by (simp add: digits_value_Cons)
qed

lemma digits_less_iff:
  assumes "length xs = length ys" and "list_all is_digit xs" and "list_all is_digit ys"
  shows "xs < ys \<longleftrightarrow> digits_value xs < digits_value ys"
  using assms
proof (induction xs ys rule: list_induct2)
  case Nil
  show ?case by (simp add: digits_value_def)
next
  case (Cons x xs y ys)
  let ?N = "10 ^ length xs :: nat"
  from Cons have dx: "is_digit x" and dy: "is_digit y"
    and ih: "xs < ys \<longleftrightarrow> digits_value xs < digits_value ys" by simp_all
  from Cons have bx: "digits_value xs < ?N" and "digits_value ys < ?N"
    using digits_value_bound [of xs] digits_value_bound [of ys] by simp_all
  then have by': "digits_value ys < ?N" by simp
  have "digit_value x * ?N + digits_value xs < digit_value y * ?N + digits_value ys
        \<longleftrightarrow> digit_value x < digit_value y
            \<or> digit_value x = digit_value y \<and> digits_value xs < digits_value ys"
  proof (cases "digit_value x < digit_value y")
    case True
    then have "Suc (digit_value x) * ?N \<le> digit_value y * ?N"
      by (intro mult_le_mono1) simp
    with bx True show ?thesis by simp
  next
    case False
    show ?thesis
    proof (cases "digit_value x = digit_value y")
      case True
      then show ?thesis by simp
    next
      case neq: False
      with False have "Suc (digit_value y) * ?N \<le> digit_value x * ?N"
        by (intro mult_le_mono1) simp
      with by' False neq show ?thesis by simp
    qed
  qed
  then show ?case
    using Cons.hyps by (simp add: digits_value_Cons digit_less_iff [OF dx dy] digit_eq_iff [OF dx dy] ih)
qed

lemma append_less_append: "(p :: string) @ a < p @ b \<longleftrightarrow> a < b"
  by (induction p) simp_all

lemma padStart_four_digits:
  assumes "k < 10000"
  shows "four_digits (padStart 4 CHR ''0'' (decimal k))"
    and "digits_value (padStart 4 CHR ''0'' (decimal k)) = k"
proof -
  have "k < 10 ^ 4" using assms by simp
  then have "length (decimal k) \<le> 4" by (rule length_decimal_le) simp
  moreover have "is_digit CHR ''0''" by (simp add: is_digit_iff)
  ultimately show "four_digits (padStart 4 CHR ''0'' (decimal k))"
    using decimal_digits [of k] by (auto simp: four_digits_def padStart_def list_all_iff)
  show "digits_value (padStart 4 CHR ''0'' (decimal k)) = k"
    by (simp add: padStart_def digits_value_zeros digits_value_decimal)
qed

lemma sequence_of_numbered: "k < 10000 \<Longrightarrow> sequence_of p (numbered p k) = k"
  by (simp add: sequence_of_def numbered_def padStart_four_digits)

lemma space_not_digit: "is_space c \<Longrightarrow> \<not> is_digit c"
  by (auto simp: is_space_def is_digit_iff)

lemma sign_not_digit: "is_digit c \<Longrightarrow> c \<noteq> CHR ''-'' \<and> c \<noteq> CHR ''+''"
  by (auto simp: is_digit_iff)

lemma parseInt_digits:
  assumes "ds \<noteq> []" and "list_all is_digit ds"
  shows "parseInt ds = Number (int (digits_value ds))"
proof -
  from assms obtain c r where ds: "ds = c # r" and c: "is_digit c"
    by (cases ds) auto
  from c have "\<not> is_space c" using space_not_digit by blast
  then have t: "dropWhile is_space ds = ds" by (simp add: ds)
  from assms(2) have tw: "takeWhile is_digit ds = ds"
    by (simp add: list_all_iff)
  from c have sg: "c \<noteq> CHR ''-''" "c \<noteq> CHR ''+''" using sign_not_digit by blast+
  show ?thesis
    unfolding parseInt_def t Let_def
    using sg tw assms(1) by (simp add: ds)
qed

lemma replace_first_prefix: "replace_first p [] (p @ r) = r"
proof (cases "p @ r")
  case Nil
  then show ?thesis by simp
next
  case (Cons a l)
  have "prefix p (a # l)" unfolding Cons [symmetric] by simp
  then have "replace_first p [] (a # l) = drop (length p) (a # l)" by simp
  then show ?thesis unfolding Cons [symmetric] by simp
qed

lemma scope_ok_member:
  assumes "scope_ok p numbers" and "s \<in> set numbers" and "prefix p s"
  shows "\<exists>ds. s = p @ ds \<and> four_digits ds"
proof -
  from assms have "four_digits (drop (length p) s)"
    by (simp add: scope_ok_def list_all_iff)
  moreover from assms(3) have "s = p @ drop (length p) s"
    by (auto simp: prefix_def)
  ultimately show ?thesis by blast
qed

lemma four_digits_le_iff:
  assumes "four_digits a" and "four_digits b"
  shows "p @ a \<le> p @ b \<longleftrightarrow> digits_value a \<le> digits_value b"
proof -
  have "p @ b < p @ a \<longleftrightarrow> digits_value b < digits_value a"
    using assms digits_less_iff [of b a] by (simp add: append_less_append four_digits_def)
  then show ?thesis by (simp add: not_less [symmetric])
qed

lemma sequence_of_greatest:
  assumes ok: "scope_ok p numbers" and ne: "filter (prefix p) numbers \<noteq> []"
  shows "sequence_of p (Max (set (filter (prefix p) numbers)))
           = Max (set (existing_sequences p numbers))"
    and "\<exists>ds. Max (set (filter (prefix p) numbers)) = p @ ds \<and> four_digits ds"
proof -
  let ?ms = "filter (prefix p) numbers"
  let ?M = "Max (set ?ms)"
  have fin: "finite (set ?ms)" and nonempty: "set ?ms \<noteq> {}"
    using ne by (simp_all del: set_filter)
  then have M_in: "?M \<in> set ?ms" by (rule Max_in)
  have wf: "\<exists>ds. s = p @ ds \<and> four_digits ds" if "s \<in> set ?ms" for s
    using that scope_ok_member [OF ok, of s] by simp
  from wf [OF M_in] show "\<exists>ds. ?M = p @ ds \<and> four_digits ds" .
  have "sequence_of p s \<le> sequence_of p ?M" if "s \<in> set ?ms" for s
  proof -
    from that have "s \<le> ?M" by (intro Max_ge fin)
    moreover from wf [OF that] obtain a where a: "s = p @ a" "four_digits a" by blast
    moreover from wf [OF M_in] obtain b where b: "?M = p @ b" "four_digits b" by blast
    ultimately show ?thesis
      using four_digits_le_iff [of a b p] by (simp add: sequence_of_def)
  qed
  then have "Max (sequence_of p ` set ?ms) = sequence_of p ?M"
    using M_in by (intro Max_eqI) auto
  then show "sequence_of p ?M = Max (set (existing_sequences p numbers))"
    by (simp add: existing_sequences_def)
qed

lemma first_desc_Max: "xs \<noteq> [] \<Longrightarrow> first_desc xs = Some (Max (set xs))"
  by (cases xs) (simp_all add: first_desc_def Max.set_eq_fold [symmetric])

lemma generate_numbered:
  assumes "scope_ok (scope_prefix year monthIndex) numbers"
  shows "generateAppointmentNumber year monthIndex numbers
           = numbered (scope_prefix year monthIndex)
               (next_sequence (scope_prefix year monthIndex) numbers)"
proof -
  let ?p = "scope_prefix year monthIndex"
  let ?ms = "filter (prefix ?p) numbers"
  show ?thesis
  proof (cases "?ms = []")
    case True
    then have "existing_sequences ?p numbers = []"
      by (simp add: existing_sequences_def)
    with True show ?thesis
      by (simp add: generateAppointmentNumber_def first_desc_def next_sequence_def numbered_def)
  next
    case False
    then have seqs: "existing_sequences ?p numbers \<noteq> []"
      by (simp add: existing_sequences_def)
    from sequence_of_greatest [OF assms False]
    obtain ds where M: "Max (set ?ms) = ?p @ ds" and ds: "four_digits ds"
      and val: "sequence_of ?p (Max (set ?ms)) = Max (set (existing_sequences ?p numbers))"
      by blast
    from ds have "ds \<noteq> []" "list_all is_digit ds" by (auto simp: four_digits_def)
    then have "parseInt ds = Number (int (digits_value ds))" by (rule parseInt_digits)
    moreover from val M have "digits_value ds = Max (set (existing_sequences ?p numbers))"
      by (simp add: sequence_of_def)
    ultimately have "js_plus (parseInt (replace_first ?p [] (Max (set ?ms)))) 1
                     = Number (int (next_sequence ?p numbers))"
      using seqs by (simp add: M replace_first_prefix next_sequence_def del: set_filter)
    then show ?thesis
      using False
      by (simp add: generateAppointmentNumber_def first_desc_Max numbered_def Let_def
               del: set_filter)
  qed
qed

lemma generate_fresh:
  assumes "scope_ok (scope_prefix year monthIndex) numbers"
  shows "generateAppointmentNumber year monthIndex numbers \<notin> set numbers"
proof
  let ?p = "scope_prefix year monthIndex"
  let ?k = "next_sequence ?p numbers"
  assume "generateAppointmentNumber year monthIndex numbers \<in> set numbers"
  then have mem: "numbered ?p ?k \<in> set numbers"
    by (simp add: generate_numbered [OF assms])
  have pre: "prefix ?p (numbered ?p ?k)" by (simp add: numbered_def)
  with mem have in_ms: "numbered ?p ?k \<in> set (filter (prefix ?p) numbers)" by simp
  from scope_ok_member [OF assms mem pre]
  have four: "four_digits (padStart 4 CHR ''0'' (decimal ?k))"
    by (simp add: numbered_def)
  then have "length (decimal ?k) \<le> 4"
    by (simp add: four_digits_def padStart_def)
  have "digits_value (padStart 4 CHR ''0'' (decimal ?k)) = ?k"
    by (simp add: padStart_def digits_value_zeros digits_value_decimal)
  then have "sequence_of ?p (numbered ?p ?k) = ?k"
    by (simp add: sequence_of_def numbered_def)
  with in_ms have "?k \<in> set (existing_sequences ?p numbers)"
    by (force simp: existing_sequences_def)
  then have "?k \<le> Max (set (existing_sequences ?p numbers))"
    and "existing_sequences ?p numbers \<noteq> []" by auto
  then show False by (simp add: next_sequence_def)
qed

lemma scope_ok_append:
  assumes "scope_ok p numbers" and "k < 10000"
  shows "scope_ok p (numbers @ [numbered p k])"
  using assms by (simp add: scope_ok_def numbered_def padStart_four_digits)

lemma next_sequence_append:
  assumes "k = next_sequence p numbers" and "k < 10000"
  shows "next_sequence p (numbers @ [numbered p k]) = Suc k"
proof -
  have "prefix p (numbered p k)" by (simp add: numbered_def)
  then have ex: "existing_sequences p (numbers @ [numbered p k]) = existing_sequences p numbers @ [k]"
    using assms(2) by (simp add: existing_sequences_def sequence_of_numbered)
  show ?thesis
  proof (cases "existing_sequences p numbers = []")
    case True
    with assms(1) have "k = 1" by (simp add: next_sequence_def)
    with True show ?thesis unfolding next_sequence_def ex by simp
  next
    case False
    with assms(1) have "k = Max (set (existing_sequences p numbers)) + 1"
      by (simp add: next_sequence_def)
    with False show ?thesis unfolding next_sequence_def ex by simp
  qed
qed

lemma generate_sequence_numbered:
  assumes "scope_ok (scope_prefix year monthIndex) numbers"
    and "next_sequence (scope_prefix year monthIndex) numbers + n \<le> 10000"
  shows "generate_sequence n year monthIndex numbers
           = map (numbered (scope_prefix year monthIndex))
               [next_sequence (scope_prefix year monthIndex) numbers
                ..< next_sequence (scope_prefix year monthIndex) numbers + n]"
  using assms
proof (induction n arbitrary: numbers)
  case 0
  show ?case by simp
next
  case (Suc n)
  let ?p = "scope_prefix year monthIndex"
  let ?k = "next_sequence ?p numbers"
  let ?s = "numbered ?p ?k"
  from Suc.prems have k: "?k < 10000" by simp
  have gen: "generateAppointmentNumber year monthIndex numbers = ?s"
    using Suc.prems(1) by (rule generate_numbered)
  have ok': "scope_ok ?p (numbers @ [?s])"
    using Suc.prems(1) k by (rule scope_ok_append)
  have next': "next_sequence ?p (numbers @ [?s]) = Suc ?k"
    using k by (intro next_sequence_append) simp
  with Suc.prems(2) have "next_sequence ?p (numbers @ [?s]) + n \<le> 10000" by simp
  from Suc.IH [OF ok' this]
  have "generate_sequence n year monthIndex (numbers @ [?s])
          = map (numbered ?p) [Suc ?k ..< Suc ?k + n]"
    by (simp add: next')
  then show ?case
    by (simp add: gen Let_def upt_rec [of ?k])
qed

lemma numbered_strict_mono:
  assumes "i < j" and "j < 10000"
  shows "numbered p i < numbered p j"
proof -
  from assms have i: "i < 10000" by simp
  have "padStart 4 CHR ''0'' (decimal i) < padStart 4 CHR ''0'' (decimal j)"
    using padStart_four_digits [OF i] padStart_four_digits [OF assms(2)] assms(1)
    by (subst digits_less_iff) (simp_all add: four_digits_def)
  then show ?thesis by (simp add: numbered_def append_less_append)
qed

lemma sorted_numbered:
  assumes "k + n \<le> 10000"
  shows "sorted_wrt (<) (map (numbered p) [k ..< k + n])"
proof -
  have "sorted_wrt (\<lambda>i j. numbered p i < numbered p j) [k ..< k + n]"
  proof (rule sorted_wrt_mono_rel [of _ "(<)"])
    show "sorted_wrt (<) [k ..< k + n]" by simp
    fix i j assume "i \<in> set [k ..< k + n]" "j \<in> set [k ..< k + n]" "i < j"
    with assms show "numbered p i < numbered p j"
      by (intro numbered_strict_mono) auto
  qed
  then show ?thesis by (simp add: sorted_wrt_map)
qed

subsection \<open>Evaluation on literals\<close>

lemma digit_char_simps:
  "digit_char 0 = CHR ''0''" "digit_char 1 = CHR ''1''" "digit_char 2 = CHR ''2''"
  "digit_char 3 = CHR ''3''" "digit_char 4 = CHR ''4''" "digit_char 5 = CHR ''5''"
  "digit_char 6 = CHR ''6''" "digit_char 7 = CHR ''7''" "digit_char 8 = CHR ''8''"
  "digit_char 9 = CHR ''9''" "digit_char (Suc 0) = CHR ''1''"
  by code_simp+

lemma replicate_literals:
  "replicate 2 c = [c, c]" "replicate 3 c = [c, c, c]"
  by (simp_all add: numeral_2_eq_2 numeral_3_eq_3)

lemmas number_simps =
  decimal.simps digit_char_simps replicate_literals numbered_def padStart_def scope_prefix_def
  generateAppointmentNumber_def first_desc_def parseInt_def is_space_def is_digit_def
  digits_value_def digit_value_def max_def scope_ok_def four_digits_def
  next_sequence_def existing_sequences_def sequence_of_def

lemma generate_sequence_two:
  "generate_sequence 2 year monthIndex numbers =
     [generateAppointmentNumber year monthIndex numbers,
      generateAppointmentNumber year monthIndex
        (numbers @ [generateAppointmentNumber year monthIndex numbers])]"
  unfolding numeral_2_eq_2 by (simp add: Let_def)

lemma generate_sequence_length: "length (generate_sequence n year monthIndex numbers) = n"
  by (induction n arbitrary: numbers) (simp_all add: Let_def)

section \<open>Claims about the availability check\<close>

text \<open>
  Claim C3. For every stored appointment and every candidate window, both of positive
  duration, the disjunction of the three sub-conditions of the query (the stored
  appointment starts at or before the candidate's start and ends after it; it starts
  before the candidate's end and ends at or after it; it lies within the candidate) holds
  exactly when the two windows overlap under the half-open test \<open>s1 < e2 \<and> s2 < e1\<close>,
  boundary instants included.
\<close>

theorem overlap_clause_is_half_open_test:
  assumes "0 < duration_minutes a" and "0 < d"
  shows "overlap_clause a t (add_minutes t d) \<longleftrightarrow> overlaps (window_of a) (window t d)"
  using overlap_clause_imp_overlaps [OF assms] overlaps_imp_overlap_clause by blast

text \<open>
  At the boundary: a stored appointment at 09:00 for 30 minutes and a candidate at 09:30 are
  apart under both tests; a candidate at 09:15 overlaps under both.
\<close>

theorem overlap_clause_is_half_open_test_witness:
  "0 < duration_minutes (sample_row 1 1 nine 30 scheduled) \<and> (0::int) < 30
   \<and> \<not> overlap_clause (sample_row 1 1 nine 30 scheduled)
         (add_minutes nine 30) (add_minutes (add_minutes nine 30) 30)
   \<and> \<not> overlaps (window_of (sample_row 1 1 nine 30 scheduled)) (window (add_minutes nine 30) 30)
   \<and> overlap_clause (sample_row 1 1 nine 30 scheduled)
         (add_minutes nine 15) (add_minutes (add_minutes nine 15) 30)
   \<and> overlaps (window_of (sample_row 1 1 nine 30 scheduled)) (window (add_minutes nine 15) 30)"
proof -
  let ?a = "sample_row 1 1 nine 30 scheduled"
  have pos: "0 < duration_minutes ?a" "(0::int) < 30" by (simp_all add: sample_row_def)
  have touch: "\<not> overlaps (window_of ?a) (window (add_minutes nine 30) 30)"
    and inside: "overlaps (window_of ?a) (window (add_minutes nine 15) 30)"
    by (simp_all add: sample_row_def window_of_def window_def add_minutes_def nine_def)
  show ?thesis
    using pos touch inside
      overlap_clause_is_half_open_test [OF pos, of "add_minutes nine 30"]
      overlap_clause_is_half_open_test [OF pos, of "add_minutes nine 15"]
    by simp
qed

text \<open>
  Claim C1 fails on the code. The claim says that \<open>checkAvailability\<close> returns true exactly
  when no other non-terminal appointment of the doctor overlaps the candidate, so that with
  doctor 1 booked at 09:00 for 30 minutes a candidate at 09:30 is available and one at 09:15
  is not. The query holds MySQL's interval syntax and the store is PostgreSQL: the store
  rejects the query and the function throws, for these two candidates as for every other
  input, an empty table included.
\<close>

theorem checkAvailability_query_rejected:
  "checkAvailability [sample_row 1 1 nine 30 scheduled] 1 (add_minutes nine 30) 30 None
     = Inl SqlSyntaxError
   \<and> checkAvailability [sample_row 1 1 nine 30 scheduled] 1 (add_minutes nine 15) 30 None
     = Inl SqlSyntaxError
   \<and> checkAvailability [] 1 nine 30 None = Inl SqlSyntaxError"
  by (simp add: checkAvailability_rejected)

section \<open>Properties of the controller\<close>

lemma write_columns_fixed [simp]:
  "appointment_key (write_columns u now a) = appointment_key a"
  "doctor_id (write_columns u now a) = doctor_id a"
  "patient_id (write_columns u now a) = patient_id a"
  "appointment_number (write_columns u now a) = appointment_number a"
  by (simp_all add: write_columns_def)

lemma find_write_columns:
  "find (\<lambda>a. appointment_key a = j)
     (map (\<lambda>a. if appointment_key a = i then write_columns u now a else a) tbl)
   = (if j = i then map_option (write_columns u now) (find (\<lambda>a. appointment_key a = i) tbl)
      else find (\<lambda>a. appointment_key a = j) tbl)"
  by (induction tbl) auto

lemma Appointment_update_eq:
  "Appointment_update db today i u =
     (db \<lparr> appointments :=
              map (\<lambda>a. if appointment_key a = i then write_columns u (getTime today) a else a)
                (appointments db) \<rparr>,
      map_option (write_columns u (getTime today)) (Appointment_findById db i))"
  by (simp add: Appointment_update_def Appointment_findById_def Let_def find_write_columns)



lemma status_handle_status [simp]:
  "set_status (handle_status today requester u) = set_status u"
  "set_appointment_date (handle_status today requester u) = set_appointment_date u"
  "set_duration_minutes (handle_status today requester u) = set_duration_minutes u"
  by (simp_all add: handle_status_def split: option.splits appointment_status.splits)

lemma updateAppointment_missing:
  "Appointment_findById db i = None \<Longrightarrow>
     updateAppointment db today requester i u = (db, Inl (404, ''Appointment not found''))"
  by (simp add: updateAppointment_def)

lemma updateAppointment_unchecked:
  assumes "Appointment_findById db i = Some X" and "\<not> changes_time u"
  shows "updateAppointment db today requester i u =
           (fst (Appointment_update db today i (handle_status today requester u)),
            Inr (Some (write_columns (handle_status today requester u) (getTime today) X)))"
  using assms by (simp add: updateAppointment_def Appointment_update_eq)

lemma updateAppointment_time_change:
  assumes "Appointment_findById db i = Some X" and "changes_time u"
  shows "updateAppointment db today requester i u = (db, Inl (500, ''Internal server error''))"
  using assms by (simp add: updateAppointment_def checkAvailability_rejected)

lemma create_reads_after_lookups:
  assumes "Patient_findById db (body_patient_id body) = Some p"
    and "User_findById db (body_doctor_id body) = Some d"
    and "role d = doctor" and "account_status d = active"
  shows "create_reads db body = Some (500, ''Internal server error'')"
  using assms by (simp add: create_reads_def checkAvailability_rejected)

lemma createAppointment_split:
  "createAppointment db today new_key requester body =
     (case create_reads db body of
        Some failure \<Rightarrow> (db, Inl failure)
      | None \<Rightarrow> create_write db today new_key requester body)"
  by (simp add: createAppointment_def create_reads_def create_write_def
           split: option.splits sum.splits)

lemma cancelAppointment_missing:
  "Appointment_findById db i = None \<Longrightarrow>
     cancelAppointment db today requester i r = (db, Inl (404, ''Appointment not found''))"
  by (simp add: cancelAppointment_def)



lemmas sample_simps =
  sample_db_def sample_row_def march_def nine_def status_only_def move_to_def resize_def
  request_def add_minutes_def

lemmas controller_simps =
  Patient_findById_def User_findById_def Appointment_findById_def
  createAppointment_def Appointment_create_def updateAppointment_def Appointment_update_def
  handle_status_def write_columns_def cancelAppointment_def cancel_data_def
  reason_or_default_def changes_time_def truthy_def js_or_def or_else_def or_keep_def
  checkAvailability_def conflict_query_def parses_interval_fragment_def store_dialect_def
  overlap_clause_def active_statuses_def create_reads_def create_write_def
  concurrent_create_def Let_def

section \<open>Claims about the appointment number\<close>

text \<open>
  Claim C4, as amended. Whenever every stored number with the scope prefix is the prefix
  followed by four digits, the generated number is the prefix (the letter A, the year, the
  month in two digits) followed by the greatest stored sequence of the scope plus one, or
  by one when the scope is empty, padded with zeros to four digits. The first number of
  March 2024 is A2024030001 and the next A2024030002. As long as the sequences stay within
  four digits, \<open>n\<close> generations in a row, each inserted before the next, give the \<open>n\<close>
  consecutive numbers, which are strictly increasing as strings and pairwise distinct.
\<close>

theorem generateAppointmentNumber_in_order:
  assumes "scope_ok (scope_prefix year monthIndex) numbers"
    and "next_sequence (scope_prefix year monthIndex) numbers + n \<le> 10000"
  shows "generateAppointmentNumber year monthIndex numbers
           = scope_prefix year monthIndex
               @ padStart 4 CHR ''0''
                   (decimal (next_sequence (scope_prefix year monthIndex) numbers))
       \<and> generateAppointmentNumber 2024 2 [] = ''A2024030001''
       \<and> generateAppointmentNumber 2024 2 [''A2024030001''] = ''A2024030002''
       \<and> generate_sequence n year monthIndex numbers
           = map (numbered (scope_prefix year monthIndex))
               [next_sequence (scope_prefix year monthIndex) numbers
                ..< next_sequence (scope_prefix year monthIndex) numbers + n]
       \<and> sorted_wrt (<) (generate_sequence n year monthIndex numbers)
       \<and> distinct (generate_sequence n year monthIndex numbers)"
proof -
  let ?p = "scope_prefix year monthIndex"
  let ?k = "next_sequence ?p numbers"
  have one: "generateAppointmentNumber year monthIndex numbers
               = ?p @ padStart 4 CHR ''0'' (decimal ?k)"
    using generate_numbered [OF assms(1)] by (simp add: numbered_def)
  have first: "generateAppointmentNumber 2024 2 [] = ''A2024030001''"
    by (simp add: number_simps)
  have second: "generateAppointmentNumber 2024 2 [''A2024030001''] = ''A2024030002''"
    by (simp add: number_simps)
  have many: "generate_sequence n year monthIndex numbers = map (numbered ?p) [?k ..< ?k + n]"
    using assms by (rule generate_sequence_numbered)
  have sorted: "sorted_wrt (<) (generate_sequence n year monthIndex numbers)"
    unfolding many using assms(2) by (rule sorted_numbered)
  then have "distinct (generate_sequence n year monthIndex numbers)"
    by (simp add: strict_sorted_iff)
  with one first second many sorted show ?thesis by blast
qed

text \<open>With two numbers stored for March 2024 and one for February, the next two are 0003 and 0004.\<close>

theorem generateAppointmentNumber_in_order_witness:
  "scope_ok (scope_prefix 2024 2) [''A2024030001'', ''A2024030002'', ''A2024020007'']
   \<and> next_sequence (scope_prefix 2024 2) [''A2024030001'', ''A2024030002'', ''A2024020007''] + 2
        \<le> 10000
   \<and> generateAppointmentNumber 2024 2 [''A2024030001'', ''A2024030002'', ''A2024020007'']
        = ''A2024030003''
   \<and> generate_sequence 2 2024 2 [''A2024030001'', ''A2024030002'', ''A2024020007'']
        = [''A2024030003'', ''A2024030004'']"
proof -
  let ?numbers = "[''A2024030001'', ''A2024030002'', ''A2024020007'']"
  have ok: "scope_ok (scope_prefix 2024 2) ?numbers"
    by (simp add: number_simps)
  have room: "next_sequence (scope_prefix 2024 2) ?numbers + 2 \<le> 10000"
    by (simp add: number_simps)
  have v1: "scope_prefix 2024 2 @ padStart 4 CHR ''0''
              (decimal (next_sequence (scope_prefix 2024 2) ?numbers)) = ''A2024030003''"
    by (simp add: number_simps)
  have v2: "map (numbered (scope_prefix 2024 2))
              [next_sequence (scope_prefix 2024 2) ?numbers
               ..< next_sequence (scope_prefix 2024 2) ?numbers + 2]
            = [''A2024030003'', ''A2024030004'']"
    by (simp add: number_simps)
  from generateAppointmentNumber_in_order [OF ok room]
  have "generateAppointmentNumber 2024 2 ?numbers = ''A2024030003''"
    and "generate_sequence 2 2024 2 ?numbers = [''A2024030003'', ''A2024030004'']"
    unfolding v1 v2 by blast+
  with ok room show ?thesis by blast
qed

text \<open>
  Claim C4 as stated (for every set of stored numbers) fails once the scope holds 9999:
  the number after A2024039999 is A20240310000, and the one generated after that is
  A20240310000 again, since A2024039999 is still the greatest string of the scope. The two
  are not distinct, and the second is not the greatest stored sequence plus one.
\<close>

theorem generate_sequence_collides_past_9999:
  "generate_sequence 2 2024 2 [''A2024039999''] = [''A20240310000'', ''A20240310000'']
   \<and> generateAppointmentNumber 2024 2 [''A2024039999'', ''A20240310000''] = ''A20240310000''"
  by (simp add: number_simps generate_sequence_two)

text \<open>
  Claim C5, as amended. In a scope whose stored numbers have four digits and whose greatest
  sequence is 9999, the generator does not fail: it returns the prefix followed by the five
  digits 10000 (neither cut to four digits nor wrapped to 0000), and this number is not among
  the stored ones.
\<close>

theorem generateAppointmentNumber_past_9999:
  assumes "scope_ok (scope_prefix year monthIndex) numbers"
    and "existing_sequences (scope_prefix year monthIndex) numbers \<noteq> []"
    and "Max (set (existing_sequences (scope_prefix year monthIndex) numbers)) = 9999"
  shows "generateAppointmentNumber year monthIndex numbers
           = scope_prefix year monthIndex @ ''10000''
       \<and> generateAppointmentNumber year monthIndex numbers \<notin> set numbers"
proof -
  have "next_sequence (scope_prefix year monthIndex) numbers = 10000"
    using assms(2,3) by (simp add: next_sequence_def)
  moreover have "decimal 10000 = ''10000''" by (simp add: number_simps)
  ultimately have "generateAppointmentNumber year monthIndex numbers
                     = scope_prefix year monthIndex @ ''10000''"
    using generate_numbered [OF assms(1)] by (simp add: numbered_def padStart_def)
  with generate_fresh [OF assms(1)] show ?thesis by blast
qed

text \<open>March 2024 with 0001 and 9999 stored: the generator returns A20240310000.\<close>

theorem generateAppointmentNumber_past_9999_witness:
  "scope_ok (scope_prefix 2024 2) [''A2024030001'', ''A2024039999'']
   \<and> existing_sequences (scope_prefix 2024 2) [''A2024030001'', ''A2024039999''] \<noteq> []
   \<and> Max (set (existing_sequences (scope_prefix 2024 2) [''A2024030001'', ''A2024039999'']))
        = 9999
   \<and> generateAppointmentNumber 2024 2 [''A2024030001'', ''A2024039999''] = ''A20240310000''"
proof -
  let ?numbers = "[''A2024030001'', ''A2024039999'']"
  have ok: "scope_ok (scope_prefix 2024 2) ?numbers" by (simp add: number_simps)
  have ne: "existing_sequences (scope_prefix 2024 2) ?numbers \<noteq> []" by (simp add: number_simps)
  have top: "Max (set (existing_sequences (scope_prefix 2024 2) ?numbers)) = 9999"
    by (simp add: number_simps)
  have v: "scope_prefix 2024 2 @ ''10000'' = ''A20240310000''" by (simp add: number_simps)
  from generateAppointmentNumber_past_9999 [OF ok ne top]
  have "generateAppointmentNumber 2024 2 ?numbers = ''A20240310000''"
    unfolding v by blast
  with ok ne top show ?thesis by blast
qed

text \<open>
  Claim C5 as stated fails: with A2024039999 stored, the generator returns a number, the
  prefix followed by 10000; nothing reports that the scope is full.
\<close>

theorem generateAppointmentNumber_no_capacity_error:
  "generateAppointmentNumber 2024 2 [''A2024039999''] = ''A20240310000''"
  by (simp add: number_simps)

section \<open>Claims about status changes and cancellation\<close>

text \<open>
  Claim C6 fails on the code. The update operation writes the requested status without
  looking at the current one. Requesting confirmed on a completed appointment succeeds: the
  stored appointment becomes confirmed and \<open>confirmed_at\<close> is stamped, where the claim
  says the request fails and leaves the appointment unchanged. Requesting cancelled on an
  appointment that is cancelled already succeeds too and stamps \<open>cancelled_at\<close> and the
  canceller anew, which the cancel operation refuses.
\<close>

theorem updateAppointment_completed_to_confirmed:
  "appointmentUpdateSchema march (status_only confirmed)
   \<and> appointmentUpdateSchema march (status_only cancelled)
   \<and> updateAppointment (sample_db [sample_row 1 1 nine 30 completed]) march 200 1
       (status_only confirmed)
     = (sample_db [(sample_row 1 1 nine 30 confirmed)
                     \<lparr> confirmed_at := Some (getTime march), updated_at := getTime march \<rparr>],
        Inr (Some ((sample_row 1 1 nine 30 confirmed)
                     \<lparr> confirmed_at := Some (getTime march), updated_at := getTime march \<rparr>)))
   \<and> updateAppointment
         (sample_db [(sample_row 1 1 nine 30 cancelled)
                       \<lparr> cancelled_at := Some 5, cancelled_by := Some 1 \<rparr>]) march 200 1
         (status_only cancelled)
     = (sample_db [(sample_row 1 1 nine 30 cancelled)
                     \<lparr> cancelled_at := Some (getTime march), cancelled_by := Some 200,
                       updated_at := getTime march \<rparr>],
        Inr (Some ((sample_row 1 1 nine 30 cancelled)
                     \<lparr> cancelled_at := Some (getTime march), cancelled_by := Some 200,
                       updated_at := getTime march \<rparr>)))
   \<and> cancelAppointment
         (sample_db [(sample_row 1 1 nine 30 cancelled)
                       \<lparr> cancelled_at := Some 5, cancelled_by := Some 1 \<rparr>]) march 200 1 None
     = (sample_db [(sample_row 1 1 nine 30 cancelled)
                     \<lparr> cancelled_at := Some 5, cancelled_by := Some 1 \<rparr>],
        Inl (400, ''Appointment already cancelled''))"
  by (simp add: controller_simps sample_simps appointmentUpdateSchema_def)



section \<open>Claims about create and reschedule\<close>

text \<open>
  Claim C8, as amended. A create request fails with 404 "Patient not found" when the patient
  is absent; otherwise it fails with 404 "Doctor not found", the same error whether the
  doctor is absent, has a role other than doctor, or is not active. The two checks run in
  that order, before the availability check, and a failed request leaves the store as it
  was.
\<close>

theorem createAppointment_checks:
  "(Patient_findById db (body_patient_id body) = None \<longrightarrow>
       createAppointment db today new_key requester body
         = (db, Inl (404, ''Patient not found'')))
   \<and> (Patient_findById db (body_patient_id body) \<noteq> None
        \<and> (User_findById db (body_doctor_id body) = None
             \<or> (\<exists>d. User_findById db (body_doctor_id body) = Some d
                    \<and> (role d \<noteq> doctor \<or> account_status d \<noteq> active))) \<longrightarrow>
       createAppointment db today new_key requester body
         = (db, Inl (404, ''Doctor not found'')))
   \<and> (\<forall>e. snd (createAppointment db today new_key requester body) = Inl e \<longrightarrow>
          fst (createAppointment db today new_key requester body) = db)"
proof (intro conjI impI allI)
  assume "Patient_findById db (body_patient_id body) = None"
  then show "createAppointment db today new_key requester body
               = (db, Inl (404, ''Patient not found''))"
    by (simp add: createAppointment_def)
next
  assume "Patient_findById db (body_patient_id body) \<noteq> None
        \<and> (User_findById db (body_doctor_id body) = None
             \<or> (\<exists>d. User_findById db (body_doctor_id body) = Some d
                    \<and> (role d \<noteq> doctor \<or> account_status d \<noteq> active)))"
  then show "createAppointment db today new_key requester body
               = (db, Inl (404, ''Doctor not found''))"
    by (auto simp: createAppointment_def)
next
  fix e
  assume "snd (createAppointment db today new_key requester body) = Inl e"
  then show "fst (createAppointment db today new_key requester body) = db"
    by (auto simp: createAppointment_def split: option.splits if_splits sum.splits)
qed

text \<open>
  Against a store where doctor 1 is booked at 09:00: a request for an unknown patient, and
  one that names a nurse as the doctor.
\<close>

theorem createAppointment_checks_witness:
  "createAppointment (sample_db [sample_row 1 1 nine 30 scheduled]) march 7 200
       (request 1 nine None \<lparr> body_patient_id := 5 \<rparr>)
     = (sample_db [sample_row 1 1 nine 30 scheduled], Inl (404, ''Patient not found''))
   \<and> createAppointment (sample_db [sample_row 1 1 nine 30 scheduled]) march 7 200
         (request 2 nine None)
     = (sample_db [sample_row 1 1 nine 30 scheduled], Inl (404, ''Doctor not found''))"
proof -
  let ?db = "sample_db [sample_row 1 1 nine 30 scheduled]"
  have no_patient: "Patient_findById ?db (body_patient_id (request 1 nine None \<lparr> body_patient_id := 5 \<rparr>))
                      = None"
    by (simp add: Patient_findById_def sample_simps)
  have patient: "Patient_findById ?db (body_patient_id (request 2 nine None)) \<noteq> None"
    by (simp add: Patient_findById_def sample_simps)
  have a_nurse: "\<exists>d. User_findById ?db (body_doctor_id (request 2 nine None)) = Some d
                   \<and> (role d \<noteq> doctor \<or> account_status d \<noteq> active)"
    by (simp add: User_findById_def sample_simps)
  note checks = createAppointment_checks [of ?db _ march 7 200]
  from checks [of "request 1 nine None \<lparr> body_patient_id := 5 \<rparr>"] no_patient
  have r1: "createAppointment ?db march 7 200 (request 1 nine None \<lparr> body_patient_id := 5 \<rparr>)
              = (?db, Inl (404, ''Patient not found''))"
    by blast
  from checks [of "request 2 nine None"] patient a_nurse
  have r2: "createAppointment ?db march 7 200 (request 2 nine None)
              = (?db, Inl (404, ''Doctor not found''))"
    by blast
  from r1 r2 show ?thesis by blast
qed

text \<open>
  Claim C8 as stated fails. A user who exists but is a nurse, or a doctor who is suspended,
  gets the very response that an absent doctor gets, 404 "Doctor not found"; there is no
  error of its own for an invalid reference. And once patient and doctor are found, the
  availability query is rejected by the store: with doctor 1 booked at 09:00, a request for
  09:15 gets 500, not 409, and a request for 09:30 gets 500 and nothing is stored.
\<close>

theorem createAppointment_as_stated_fails:
  "createAppointment (sample_db []) march 7 200 (request 2 nine None)
     = (sample_db [], Inl (404, ''Doctor not found''))
   \<and> createAppointment (sample_db []) march 7 200 (request 3 nine None)
     = (sample_db [], Inl (404, ''Doctor not found''))
   \<and> createAppointment (sample_db []) march 7 200 (request 999 nine None)
     = (sample_db [], Inl (404, ''Doctor not found''))
   \<and> createAppointment (sample_db [sample_row 1 1 nine 30 scheduled]) march 7 200
         (request 1 (add_minutes nine 15) None)
     = (sample_db [sample_row 1 1 nine 30 scheduled], Inl (500, ''Internal server error''))
   \<and> createAppointment (sample_db [sample_row 1 1 nine 30 scheduled]) march 7 200
         (request 1 (add_minutes nine 30) None)
     = (sample_db [sample_row 1 1 nine 30 scheduled], Inl (500, ''Internal server error''))"
  by (simp add: controller_simps sample_simps)

text \<open>
  Claim C9 fails on the code. Doctor 1 has appointment 1 at 09:00 and appointment 2 at
  10:00, 30 minutes each. Moving appointment 1 to 09:15 overlaps only its own old window, and
  the claim says it succeeds; moving it to 09:45 runs into appointment 2, and the claim says
  it fails with Conflict. Both requests run the availability check, the store rejects its
  query, and both are answered with 500, the store unchanged; so is a request that changes
  only the duration. What the claim says of the other requests holds: a key that is not
  stored gives 404 "Appointment not found", and a status-only update runs no check and
  succeeds.
\<close>

theorem updateAppointment_reschedule_rejected:
  "appointmentUpdateSchema march (move_to (add_minutes nine 15))
   \<and> appointmentUpdateSchema march (move_to (add_minutes nine 45))
   \<and> appointmentUpdateSchema march (resize 45)
   \<and> updateAppointment
       (sample_db [sample_row 1 1 nine 30 scheduled,
                   sample_row 2 1 (add_minutes nine 60) 30 confirmed])
       march 200 1 (move_to (add_minutes nine 15))
     = (sample_db [sample_row 1 1 nine 30 scheduled,
                   sample_row 2 1 (add_minutes nine 60) 30 confirmed],
        Inl (500, ''Internal server error''))
   \<and> updateAppointment
         (sample_db [sample_row 1 1 nine 30 scheduled,
                     sample_row 2 1 (add_minutes nine 60) 30 confirmed])
         march 200 1 (move_to (add_minutes nine 45))
     = (sample_db [sample_row 1 1 nine 30 scheduled,
                   sample_row 2 1 (add_minutes nine 60) 30 confirmed],
        Inl (500, ''Internal server error''))
   \<and> updateAppointment
         (sample_db [sample_row 1 1 nine 30 scheduled,
                     sample_row 2 1 (add_minutes nine 60) 30 confirmed])
         march 200 1 (resize 45)
     = (sample_db [sample_row 1 1 nine 30 scheduled,
                   sample_row 2 1 (add_minutes nine 60) 30 confirmed],
        Inl (500, ''Internal server error''))
   \<and> updateAppointment
         (sample_db [sample_row 1 1 nine 30 scheduled,
                     sample_row 2 1 (add_minutes nine 60) 30 confirmed])
         march 200 9 (move_to (add_minutes nine 15))
     = (sample_db [sample_row 1 1 nine 30 scheduled,
                   sample_row 2 1 (add_minutes nine 60) 30 confirmed],
        Inl (404, ''Appointment not found''))
   \<and> map status (appointments (fst (updateAppointment
         (sample_db [sample_row 1 1 nine 30 scheduled,
                     sample_row 2 1 (add_minutes nine 60) 30 confirmed])
         march 200 1 (status_only confirmed))))
     = [confirmed, confirmed]"
  by (simp add: controller_simps sample_simps appointmentUpdateSchema_def)

section \<open>The invariant under a status-only update\<close>

text \<open>
  Claim C2 fails on the code. Appointment 1 of doctor 1 at 09:00 is cancelled, and appointment 2
  of the same doctor holds the same window; the table has no double booking. A status-only
  update that the schema admits sets appointment 1 back to scheduled: it runs no availability
  check, succeeds, and leaves two scheduled appointments of one doctor in one window.
\<close>

theorem status_only_update_double_books:
  "no_double_booking
      [sample_row 1 1 nine 30 cancelled, sample_row 2 1 nine 30 scheduled]
   \<and> appointmentUpdateSchema march (status_only scheduled)
   \<and> map status (appointments (fst (updateAppointment
         (sample_db [sample_row 1 1 nine 30 cancelled, sample_row 2 1 nine 30 scheduled])
         march 200 1 (status_only scheduled))))
       = [scheduled, scheduled]
   \<and> \<not> no_double_booking (appointments (fst (updateAppointment
         (sample_db [sample_row 1 1 nine 30 cancelled, sample_row 2 1 nine 30 scheduled])
         march 200 1 (status_only scheduled))))"
  by (simp add: controller_simps sample_simps appointmentUpdateSchema_def clash_def
        non_terminal_def window_of_def window_def)

section \<open>Two create requests at once\<close>

text \<open>
  Claim C10 fails on the code. Two create requests for doctor 1 at 09:00 arrive at an empty
  table and both do their reads before either inserts. The claim says exactly one succeeds
  and the other gets Conflict. On the code neither succeeds: each is answered with 500 at
  the availability query, which the store rejects, and nothing is stored. Nor is anything
  atomic behind the check: the insert checks no window, and two inserts for the doctor and
  the window, one after the other, both commit and leave a double booking.
\<close>

theorem concurrent_create_none_succeeds:
  "appointmentSchema march (request 1 nine None)
   \<and> concurrent_create (sample_db []) march 7 8 200 (request 1 nine None) (request 1 nine None)
     = (sample_db [], Inl (500, ''Internal server error''), Inl (500, ''Internal server error''))
   \<and> (case Appointment_create (sample_db []) march 7 200 (request 1 nine None) of
         Inl e \<Rightarrow> False
       | Inr (db1, a1) \<Rightarrow>
           (case Appointment_create db1 march 8 200 (request 1 nine None) of
              Inl e \<Rightarrow> False
            | Inr (db2, a2) \<Rightarrow>
                map appointment_number (appointments db2) = [''A2024030001'', ''A2024030002'']
                \<and> map status (appointments db2) = [scheduled, scheduled]
                \<and> \<not> no_double_booking (appointments db2)))"
proof -
  have first: "generateAppointmentNumber 2024 2 [] = ''A2024030001''"
    and second: "generateAppointmentNumber 2024 2 [''A2024030001''] = ''A2024030002''"
    by (simp_all add: number_simps)
  show ?thesis
    by (simp add: controller_simps sample_simps first second clash_def non_terminal_def
          window_of_def window_def appointmentSchema_def)
qed

end
